theory Spec2Isabelle
  imports Complex_Main "HOL-Library.Monad_Syntax"
begin

section \<open>Recovering molar mass distributions: the notebook's recovery functions\<close>

text \<open>
  The development embeds the recovery code of \<^verbatim>\<open>Notebooks/pdi-sampling-demo.ipynb\<close>:
  \<^verbatim>\<open>recovered_gauss_sigma\<close> (cell 4), \<^verbatim>\<open>f1\<close> and \<^verbatim>\<open>f2\<close> (cell 10),
  \<^verbatim>\<open>weibull_k_expression\<close>, \<^verbatim>\<open>weibull_lambda_expression\<close> and
  \<^verbatim>\<open>recover_mass_dist\<close> (cell 14).

  Numbers. Python floats and numpy doubles are idealised as \<^typ>\<open>real\<close>: no rounding, no
  overflow. What is kept of the two arithmetics is where they part:
  \<^item> an argument of \<^verbatim>\<open>recover_mass_dist\<close> is \<^verbatim>\<open>None\<close> or a Python float, a
    \<^typ>\<open>real option\<close>; an operation on two Python floats raises
    \<^verbatim>\<open>ZeroDivisionError\<close> on a zero divisor and \<^verbatim>\<open>TypeError\<close> on \<^verbatim>\<open>None\<close>;
  \<^item> a numpy operation never raises: a zero divisor, or a negative base under a
    fractional exponent, gives \<^verbatim>\<open>inf\<close> or \<^verbatim>\<open>nan\<close>. A numpy value is a
    \<^typ>\<open>real option\<close> too, where \<open>None\<close> stands for a run that has produced
    \<^verbatim>\<open>inf\<close> or \<^verbatim>\<open>nan\<close>; the model does not follow the arithmetic of these two past
    that point.
\<close>

subsection \<open>Python values and errors\<close>

datatype error =
    ValueError
  | AssertionError string
  | ZeroDivisionError
  | TypeError

definition bind_err :: "error + 'a \<Rightarrow> ('a \<Rightarrow> error + 'b) \<Rightarrow> error + 'b" where
  "bind_err m f = (case m of Inl e \<Rightarrow> Inl e | Inr v \<Rightarrow> f v)"

text \<open>\<^verbatim>\<open>a / b\<close>, \<^verbatim>\<open>a * b\<close> and \<^verbatim>\<open>a - b\<close> on Python values that are floats or \<^verbatim>\<open>None\<close>.\<close>

fun py_truediv :: "real option \<Rightarrow> real option \<Rightarrow> error + real" where
  "py_truediv (Some a) (Some b) = (if b = 0 then Inl ZeroDivisionError else Inr (a / b))"
| "py_truediv _ _ = Inl TypeError"

fun py_mul :: "real option \<Rightarrow> real option \<Rightarrow> error + real" where
  "py_mul (Some a) (Some b) = Inr (a * b)"
| "py_mul _ _ = Inl TypeError"

fun py_sub :: "real option \<Rightarrow> real option \<Rightarrow> error + real" where
  "py_sub (Some a) (Some b) = Inr (a - b)"
| "py_sub _ _ = Inl TypeError"

text \<open>
  \<^verbatim>\<open>str.lower()\<close> on ASCII text: the letters \<^verbatim>\<open>A\<close> to \<^verbatim>\<open>Z\<close> (codes 65 to 90) move to
  \<^verbatim>\<open>a\<close> to \<^verbatim>\<open>z\<close>, every other character stays.
\<close>

definition lower_char :: "char \<Rightarrow> char" where
  "lower_char c =
     (let n = (of_char c :: nat) in if 65 \<le> n \<and> n \<le> 90 then char_of (n + 32) else c)"

definition str_lower :: "string \<Rightarrow> string" where
  "str_lower s = map lower_char s"

subsection \<open>numpy arithmetic\<close>

type_synonym npfloat = "real option"

definition np_truediv :: "real \<Rightarrow> real \<Rightarrow> npfloat" where
  "np_truediv a b = (if b = 0 then None else Some (a / b))"

text \<open>
  \<^verbatim>\<open>x ** y\<close> on doubles: a positive base takes any exponent; zero to a negative exponent is
  \<^verbatim>\<open>inf\<close>; a negative base takes whole exponents only, a fractional one gives \<^verbatim>\<open>nan\<close>.
\<close>

definition np_power :: "real \<Rightarrow> real \<Rightarrow> npfloat" where
  "np_power x y =
     (if 0 < x then Some (x powr y)
      else if x = 0 then (if 0 < y then Some 0 else if y = 0 then Some 1 else None)
      else if y = of_int \<lfloor>y\<rfloor> then Some (x powi \<lfloor>y\<rfloor>)
      else None)"

subsection \<open>Cell 4: the Gaussian's sigma\<close>

text \<open>\<^verbatim>\<open>def recovered_gauss_sigma(Mn, Mw): return Mn * (Mw - Mn)\<close>\<close>

definition recovered_gauss_sigma :: "real \<Rightarrow> real \<Rightarrow> real" where
  "recovered_gauss_sigma Mn Mw = Mn * (Mw - Mn)"

subsection \<open>Cells 10 and 14: the Weibull shape and scale expressions\<close>

text \<open>
  \<^verbatim>\<open>scipy.special.gamma\<close> is library code: it is the parameter \<open>gamma\<close> of every
  function that calls it, with a numpy result (\<^verbatim>\<open>gamma(0.)\<close> is \<^verbatim>\<open>inf\<close>).
  \<^verbatim>\<open>
  def f1(x, Mn, Mw):
      return (2. * x * gamma(2./x)) / gamma(1./x)**2 - (Mw / Mn)
  def f2(Mn, k):
      return(Mn * k / gamma(1./k))
  \<close>
  Both are called on numpy values: \<^verbatim>\<open>f1\<close> by the root-finder, on the array it iterates
  and on the globals cell 8 computed with \<^verbatim>\<open>np.sum\<close>; \<^verbatim>\<open>f2\<close> on the array the
  root-finder returned.
\<close>

definition f1 :: "(real \<Rightarrow> npfloat) \<Rightarrow> real \<Rightarrow> real \<Rightarrow> real \<Rightarrow> npfloat" where
  "f1 gamma x Mn Mw = do {
     a \<leftarrow> np_truediv 2 x;
     ga \<leftarrow> gamma a;
     b \<leftarrow> np_truediv 1 x;
     gb \<leftarrow> gamma b;
     q \<leftarrow> np_truediv (2 * x * ga) (gb ^ 2);
     r \<leftarrow> np_truediv Mw Mn;
     Some (q - r)
   }"

definition f2 :: "(real \<Rightarrow> npfloat) \<Rightarrow> real \<Rightarrow> real \<Rightarrow> npfloat" where
  "f2 gamma Mn k = do {
     b \<leftarrow> np_truediv 1 k;
     gb \<leftarrow> gamma b;
     np_truediv (Mn * k) gb
   }"

text \<open>
  Cell 14 repeats the two under new names, with the same bodies;
  \<^verbatim>\<open>recover_mass_dist\<close> calls neither.
\<close>

definition weibull_k_expression :: "(real \<Rightarrow> npfloat) \<Rightarrow> real \<Rightarrow> real \<Rightarrow> real \<Rightarrow> npfloat" where
  "weibull_k_expression gamma x Mn Mw = do {
     a \<leftarrow> np_truediv 2 x;
     ga \<leftarrow> gamma a;
     b \<leftarrow> np_truediv 1 x;
     gb \<leftarrow> gamma b;
     q \<leftarrow> np_truediv (2 * x * ga) (gb ^ 2);
     r \<leftarrow> np_truediv Mw Mn;
     Some (q - r)
   }"

definition weibull_lambda_expression :: "(real \<Rightarrow> npfloat) \<Rightarrow> real \<Rightarrow> real \<Rightarrow> npfloat" where
  "weibull_lambda_expression gamma Mn k = do {
     b \<leftarrow> np_truediv 1 k;
     gb \<leftarrow> gamma b;
     np_truediv (Mn * k) gb
   }"

subsection \<open>Cell 14: \<^verbatim>\<open>recover_mass_dist\<close>\<close>

text \<open>
  The module-level variables the function reads: cell 8 assigns \<^verbatim>\<open>weib_M_n\<close> and
  \<^verbatim>\<open>weib_M_w\<close> (the moments of its example Weibull curve), cells 12 and 15 assign them
  again.
\<close>

record globals =
  weib_M_n :: real
  weib_M_w :: real

text \<open>
  What the function returns: one of its two lambdas, with the variables the lambda
  captures, or \<^verbatim>\<open>None\<close> when control falls off the end of the body.
  \<^item> \<^verbatim>\<open>lambda x: np.exp(-(x-Mn)**2 / (2. * sigma))\<close> captures \<^verbatim>\<open>Mn\<close> and \<^verbatim>\<open>sigma\<close>;
  \<^item> the Weibull lambda captures \<^verbatim>\<open>recovered_k\<close> and \<^verbatim>\<open>recovered_lambda\<close>, both numpy
    values.
\<close>

datatype density =
    GaussianLambda real real
  | WeibullLambda npfloat npfloat
  | PyNone

text \<open>\<^verbatim>\<open>sum([x is not None for x in [pdi, Mn, Mw]])\<close>\<close>

definition pdi_arg_sum :: "real option \<Rightarrow> real option \<Rightarrow> real option \<Rightarrow> nat" where
  "pdi_arg_sum pdi Mn Mw = length (filter (\<lambda>x. x \<noteq> None) [pdi, Mn, Mw])"

text \<open>
  The branch for three given values:
  \<^verbatim>\<open>assert pdi - (Mw/Mn) < 1e-5, 'PDI value does not match M_n and M_w values.'\<close>
\<close>

definition check_pdi :: "real option \<Rightarrow> real option \<Rightarrow> real option \<Rightarrow> error + unit" where
  "check_pdi Mn Mw pdi =
     bind_err (py_truediv Mw Mn) (\<lambda>q.
     bind_err (py_sub pdi (Some q)) (\<lambda>d.
       if d < 1 / 100000 then Inr ()
       else Inl (AssertionError ''PDI value does not match M_n and M_w values.'')))"

text \<open>
  The branch for fewer than three: three \<^verbatim>\<open>if\<close> statements in a row, each testing one
  variable and assigning to it.
  \<^verbatim>\<open>
  if Mn is None:
      Mn = Mw / pdi
  if Mw is None:
      Mw = pdi * Mn
  if pdi is None:
      pdi = Mw / Mn
  \<close>
\<close>

definition complete_moments ::
  "real option \<Rightarrow> real option \<Rightarrow> real option \<Rightarrow>
   error + (real option \<times> real option \<times> real option)" where
  "complete_moments Mn Mw pdi =
     bind_err (if Mn = None then map_sum id Some (py_truediv Mw pdi) else Inr Mn) (\<lambda>Mn1.
     bind_err (if Mw = None then map_sum id Some (py_mul pdi Mn1) else Inr Mw) (\<lambda>Mw1.
     bind_err (if pdi = None then map_sum id Some (py_truediv Mw1 Mn1) else Inr pdi) (\<lambda>pdi1.
       Inr (Mn1, Mw1, pdi1))))"

text \<open>
  The function itself. \<open>g\<close> holds the module's variables, \<open>gamma\<close> and \<open>opt_root\<close> are the
  library: \<open>opt_root f x0\<close> is \<^verbatim>\<open>scipy.optimize.root(f, x0=x0)['x']\<close>, the point the solver
  stops at (the solver reports a failure in a field the function never reads).
  \<^verbatim>\<open>
  def recover_mass_dist(Mn=None, Mw=None, pdi=None, distribution='Gaussian'):
      if distribution.lower() != 'gaussian' and distribution.lower() != 'weibull':
          raise(ValueError('Distribution must be either "gaussian" or "weibull".'))
      pdi_arg_sum = sum([x is not None for x in [pdi, Mn, Mw]])
      assert pdi_arg_sum >= 2, 'At least two of [pdi, M_n, M_w] must be given.'
      if pdi_arg_sum == 3:
          #special case, make sure that pdi = M_w / M_n
          assert pdi - (Mw/Mn) < 1e-5, 'PDI value does not match M_n and M_w values.'
      else:
          # need to recover one of M_w or M_n or pdi
          ...
      if distribution.lower() == 'gaussian':
          mean = Mn
          sigma = Mn * (Mw - Mn)
          return lambda x: np.exp(-(x-Mn)**2 / (2. * sigma))
      elif distribution.lower() == 'weibull':
          # get the shape parameter
          a = scipy.optimize.root(f1, args=(weib_M_n, weib_M_w), x0=1.)
          recovered_k = a['x']
          # get the scale parameter
          recovered_lambda = f2(Mn, recovered_k)
          return lambda x: ( ... )
  \<close>
\<close>

definition recover_mass_dist ::
  "globals \<Rightarrow> (real \<Rightarrow> npfloat) \<Rightarrow> ((real \<Rightarrow> npfloat) \<Rightarrow> real \<Rightarrow> npfloat) \<Rightarrow>
   real option \<Rightarrow> real option \<Rightarrow> real option \<Rightarrow> string \<Rightarrow> error + density" where
  "recover_mass_dist g gamma opt_root Mn Mw pdi distribution =
     (if str_lower distribution \<noteq> ''gaussian'' \<and> str_lower distribution \<noteq> ''weibull''
      then Inl ValueError
      else if \<not> 2 \<le> pdi_arg_sum pdi Mn Mw
      then Inl (AssertionError ''At least two of [pdi, M_n, M_w] must be given.'')
      else
        bind_err
          (if pdi_arg_sum pdi Mn Mw = 3
           then bind_err (check_pdi Mn Mw pdi) (\<lambda>_. Inr (Mn, Mw, pdi))
           else complete_moments Mn Mw pdi)
          (\<lambda>(Mn, Mw, pdi).
             if str_lower distribution = ''gaussian'' then
               bind_err (py_sub Mw Mn) (\<lambda>d.
               bind_err (py_mul Mn (Some d)) (\<lambda>sigma.
               case Mn of
                 None \<Rightarrow> Inl TypeError
               | Some mean \<Rightarrow> Inr (GaussianLambda mean sigma)))
             else if str_lower distribution = ''weibull'' then
               (let recovered_k = opt_root (\<lambda>x. f1 gamma x (weib_M_n g) (weib_M_w g)) 1
                in case Mn of
                     None \<Rightarrow> Inl TypeError
                   | Some m \<Rightarrow>
                       Inr (WeibullLambda recovered_k
                              (Option.bind recovered_k (f2 gamma m))))
             else Inr PyNone))"

text \<open>
  A call that leaves \<^verbatim>\<open>distribution\<close> out takes the default of the signature,
  \<^verbatim>\<open>distribution='Gaussian'\<close>.
\<close>

definition recover_mass_dist_call ::
  "globals \<Rightarrow> (real \<Rightarrow> npfloat) \<Rightarrow> ((real \<Rightarrow> npfloat) \<Rightarrow> real \<Rightarrow> npfloat) \<Rightarrow>
   real option \<Rightarrow> real option \<Rightarrow> real option \<Rightarrow> string option \<Rightarrow> error + density" where
  "recover_mass_dist_call g gamma opt_root Mn Mw pdi distribution =
     recover_mass_dist g gamma opt_root Mn Mw pdi
       (case distribution of None \<Rightarrow> ''Gaussian'' | Some d \<Rightarrow> d)"

subsection \<open>Calling the returned lambda\<close>

text \<open>
  The argument is a Python float. The Gaussian lambda divides two Python floats before it
  reaches \<^verbatim>\<open>np.exp\<close>; the Weibull lambda works on numpy values throughout:
  \<^verbatim>\<open>
  lambda x: ( recovered_k / recovered_lambda
              * (x / recovered_lambda) ** (recovered_k - 1)
              * np.exp(- (x / recovered_lambda) ** recovered_k) )
  \<close>
\<close>

fun call_density :: "density \<Rightarrow> real \<Rightarrow> error + npfloat" where
  "call_density (GaussianLambda Mn sigma) x =
     bind_err (py_truediv (Some (- ((x - Mn) ^ 2))) (Some (2 * sigma))) (\<lambda>e.
       Inr (Some (exp e)))"
| "call_density (WeibullLambda recovered_k recovered_lambda) x =
     Inr (do {
       k \<leftarrow> recovered_k;
       l \<leftarrow> recovered_lambda;
       c \<leftarrow> np_truediv k l;
       r \<leftarrow> np_truediv x l;
       p \<leftarrow> np_power r (k - 1);
       q \<leftarrow> np_power r k;
       Some (c * p * exp (- q))
     })"
| "call_density PyNone x = Inl TypeError"

section \<open>Properties\<close>

subsection \<open>Auxiliary facts\<close>

lemma lower_char_idem: "lower_char (lower_char c) = lower_char c"
  by (auto simp: lower_char_def Let_def)

lemma str_lower_idem: "str_lower (str_lower s) = str_lower s"
  by (simp add: str_lower_def lower_char_idem)

lemma str_lower_gaussian: "str_lower ''gaussian'' = ''gaussian''"
  by code_simp

lemma str_lower_weibull: "str_lower ''weibull'' = ''weibull''"
  by code_simp

lemma str_lower_Gaussian: "str_lower ''Gaussian'' = ''gaussian''"
  by code_simp

lemma str_lower_WEIBULL: "str_lower ''WEIBULL'' = ''weibull''"
  by code_simp

lemma str_lower_lognormal: "str_lower ''lognormal'' = ''lognormal''"
  by code_simp

lemmas recover_defs =
  recover_mass_dist_def pdi_arg_sum_def complete_moments_def check_pdi_def bind_err_def

text \<open>The function looks at \<^verbatim>\<open>distribution\<close> through \<^verbatim>\<open>.lower()\<close> only.\<close>

lemma recover_lower:
  "recover_mass_dist g gamma opt_root Mn Mw pdi (str_lower d) =
   recover_mass_dist g gamma opt_root Mn Mw pdi d"
  unfolding recover_mass_dist_def str_lower_idem by (rule refl)

text \<open>The cell's second pair of expressions is the first pair.\<close>

lemma weibull_k_expression_f1: "weibull_k_expression gamma x Mn Mw = f1 gamma x Mn Mw"
  by (simp add: weibull_k_expression_def f1_def)

lemma weibull_lambda_expression_f2: "weibull_lambda_expression gamma Mn k = f2 gamma Mn k"
  by (simp add: weibull_lambda_expression_def f2_def)

text \<open>How many of the three are given, case by case.\<close>

lemma pdi_arg_sum_less_2:
  "(pdi_arg_sum pdi Mn Mw < 2) =
   ((pdi = None \<and> Mn = None) \<or> (pdi = None \<and> Mw = None) \<or> (Mn = None \<and> Mw = None))"
  by (cases pdi; cases Mn; cases Mw) (simp_all add: pdi_arg_sum_def)

lemma pdi_arg_sum_eq_2:
  "(pdi_arg_sum pdi Mn Mw = 2) =
   ((\<exists>w p. Mn = None \<and> Mw = Some w \<and> pdi = Some p) \<or>
    (\<exists>n p. Mn = Some n \<and> Mw = None \<and> pdi = Some p) \<or>
    (\<exists>n w. Mn = Some n \<and> Mw = Some w \<and> pdi = None))"
  by (cases pdi; cases Mn; cases Mw) (simp_all add: pdi_arg_sum_def)

text \<open>
  With two of the three given, one of the guards \<^verbatim>\<open>is None\<close> of the completion holds.
\<close>

lemma one_guard_holds:
  assumes "pdi_arg_sum pdi Mn Mw = 2"
  shows "length (filter (\<lambda>v. v = None) [Mn, Mw, pdi]) = 1"
  using assms by (cases pdi; cases Mn; cases Mw) (simp_all add: pdi_arg_sum_def)

text \<open>The runs of \<^verbatim>\<open>recover_mass_dist\<close> on two and on three given values.\<close>

lemma recover_gaussian_two:
  assumes "str_lower d = ''gaussian''"
  shows "recover_mass_dist g gamma opt_root (Some Mn) (Some Mw) None d =
    (if Mn = 0 then Inl ZeroDivisionError else Inr (GaussianLambda Mn (Mn * (Mw - Mn))))"
  using assms by (simp add: recover_defs)

lemma recover_weibull_two:
  assumes "str_lower d = ''weibull''"
  shows "recover_mass_dist g gamma opt_root (Some Mn) (Some Mw) None d =
    (if Mn = 0 then Inl ZeroDivisionError
     else Inr (WeibullLambda (opt_root (\<lambda>x. f1 gamma x (weib_M_n g) (weib_M_w g)) 1)
            (Option.bind (opt_root (\<lambda>x. f1 gamma x (weib_M_n g) (weib_M_w g)) 1)
               (f2 gamma Mn))))"
  using assms by (simp add: recover_defs Let_def)

lemma recover_weibull_completed:
  assumes "str_lower d = ''weibull''" and "p \<noteq> 0"
  shows "recover_mass_dist g gamma opt_root None (Some w) (Some p) d =
     Inr (WeibullLambda (opt_root (\<lambda>x. f1 gamma x (weib_M_n g) (weib_M_w g)) 1)
            (Option.bind (opt_root (\<lambda>x. f1 gamma x (weib_M_n g) (weib_M_w g)) 1)
               (f2 gamma (w / p))))"
  using assms by (simp add: recover_defs Let_def)

lemma recover_gaussian_three:
  assumes "str_lower d = ''gaussian''"
  shows "recover_mass_dist g gamma opt_root (Some Mn) (Some Mw) (Some p) d =
    (if Mn = 0 then Inl ZeroDivisionError
     else if p - Mw / Mn < 1 / 100000 then Inr (GaussianLambda Mn (Mn * (Mw - Mn)))
     else Inl (AssertionError ''PDI value does not match M_n and M_w values.''))"
  using assms by (simp add: recover_defs)

lemma call_gaussian:
  assumes "sigma \<noteq> 0"
  shows "call_density (GaussianLambda Mn sigma) x =
     Inr (Some (exp (- ((x - Mn) ^ 2) / (2 * sigma))))"
  using assms by (simp add: bind_err_def)

text \<open>\<^verbatim>\<open>ValueError\<close> has one source, the test of \<^verbatim>\<open>distribution\<close>.\<close>

lemma recover_value_error:
  "(recover_mass_dist g gamma opt_root Mn Mw pdi d = Inl ValueError) =
   (str_lower d \<noteq> ''gaussian'' \<and> str_lower d \<noteq> ''weibull'')"
  by (cases Mn; cases Mw; cases pdi) (auto simp: recover_defs Let_def split: if_splits)

text \<open>
  The residual \<^verbatim>\<open>f1\<close> of one pair of moments against that of another: where it is
  finite, the two differ by the difference of the ratios \<open>Mw / Mn\<close>.
\<close>

lemma f1_other_moments:
  assumes "f1 gamma x Mn Mw = Some r" and "Mn' \<noteq> 0"
  shows "f1 gamma x Mn' Mw' = Some (r + Mw / Mn - Mw' / Mn')"
proof -
  from assms(1) obtain a ga b gb q where
    s: "np_truediv 2 x = Some a" "gamma a = Some ga" "np_truediv 1 x = Some b"
       "gamma b = Some gb" "np_truediv (2 * x * ga) (gb ^ 2) = Some q" and
    t: "Option.bind (np_truediv Mw Mn) (\<lambda>r. Some (q - r)) = Some r"
    unfolding f1_def by (fastforce simp only: Option.bind_eq_Some_conv)
  from t have "Mn \<noteq> 0" and r: "r = q - Mw / Mn"
    by (auto simp: np_truediv_def Option.bind_eq_Some_conv split: if_splits)
  have "f1 gamma x Mn' Mw' = Some (q - Mw' / Mn')"
    unfolding f1_def using s assms(2) by (simp add: np_truediv_def [of Mw' Mn'])
  then show ?thesis
    by (simp add: r)
qed

text \<open>
  The Weibull lambda. At a positive argument, with a positive scale, it is the Weibull
  density. At a negative argument it is never 0, unless the shape it holds is exactly 0:
  the result is \<^verbatim>\<open>nan\<close> under a fractional shape, and a number other than 0 under a
  whole one.
\<close>

lemma weibull_lambda_nonzero:
  assumes "k \<noteq> Some 0" and "x < 0"
  shows "call_density (WeibullLambda k l) x \<noteq> Inr (Some 0)"
  using assms
  by (cases k; cases l) (auto simp: np_truediv_def np_power_def split: if_splits)

lemma weibull_lambda_positive_input:
  assumes "0 < x" and "0 < l"
  shows "call_density (WeibullLambda (Some k) (Some l)) x =
     Inr (Some (k / l * (x / l) powr (k - 1) * exp (- ((x / l) powr k))))"
  using assms by (simp add: np_truediv_def np_power_def)

subsection \<open>The Gaussian family\<close>

text \<open>
  C8. The density \<open>f\<close> that \<^verbatim>\<open>recover_mass_dist(Mn=50, Mw=60, distribution='gaussian')\<close>
  returns is the Gaussian lambda with \<open>Mn = 50\<close> and \<open>sigma = 500\<close>; \<open>f(50) = 1\<close>, and
  \<open>f\<close> is symmetric about 50: \<open>f(50 + d) = f(50 - d)\<close> for every real \<open>d\<close>.
\<close>

theorem gaussian_50_60_peak_and_symmetry:
  "recover_mass_dist g gamma opt_root (Some 50) (Some 60) None ''gaussian'' =
     Inr (GaussianLambda 50 500) \<and>
   call_density (GaussianLambda 50 500) 50 = Inr (Some 1) \<and>
   (\<forall>d. call_density (GaussianLambda 50 500) (50 + d) =
        call_density (GaussianLambda 50 500) (50 - d))"
proof -
  have "recover_mass_dist g gamma opt_root (Some 50) (Some 60) None ''gaussian'' =
      Inr (GaussianLambda 50 500)"
    by (simp add: recover_gaussian_two str_lower_gaussian)
  moreover have "call_density (GaussianLambda 50 500) 50 = Inr (Some 1)"
    by (simp add: bind_err_def)
  moreover have "call_density (GaussianLambda 50 500) (50 + d) =
      call_density (GaussianLambda 50 500) (50 - d)" for d :: real
    by (simp add: bind_err_def)
  ultimately show ?thesis by blast
qed

text \<open>
  C2. For \<open>Mw > Mn > 0\<close>, Gaussian recovery gives \<open>sigma = Mn * (Mw - Mn)\<close>, a positive
  number, and the mean \<open>Mn\<close>: \<^verbatim>\<open>recovered_gauss_sigma\<close> computes this sigma, and
  \<^verbatim>\<open>recover_mass_dist\<close>, called with \<open>Mn\<close> and \<open>Mw\<close> (and with no \<open>pdi\<close>, or with the
  \<open>pdi\<close> that is their ratio) under any spelling of the Gaussian family, returns the lambda
  holding \<open>Mn\<close> and that sigma, which maps \<open>x\<close> to \<open>exp (- (x - Mn)\<^sup>2 / (2 * sigma))\<close>.
\<close>

theorem gaussian_recovery_closed_form:
  assumes "0 < Mn" and "Mn < Mw" and "str_lower d = ''gaussian''"
  shows "recovered_gauss_sigma Mn Mw = Mn * (Mw - Mn) \<and>
    0 < recovered_gauss_sigma Mn Mw \<and>
    recover_mass_dist g gamma opt_root (Some Mn) (Some Mw) None d =
      Inr (GaussianLambda Mn (recovered_gauss_sigma Mn Mw)) \<and>
    recover_mass_dist g gamma opt_root (Some Mn) (Some Mw) (Some (Mw / Mn)) d =
      Inr (GaussianLambda Mn (recovered_gauss_sigma Mn Mw)) \<and>
    (\<forall>x. call_density (GaussianLambda Mn (recovered_gauss_sigma Mn Mw)) x =
       Inr (Some (exp (- ((x - Mn) ^ 2) / (2 * (Mn * (Mw - Mn)))))))"
proof -
  have sig: "recovered_gauss_sigma Mn Mw = Mn * (Mw - Mn)"
    by (simp add: recovered_gauss_sigma_def)
  have pos: "0 < Mn * (Mw - Mn)"
    using assms(1,2) by simp
  have two: "recover_mass_dist g gamma opt_root (Some Mn) (Some Mw) None d =
      Inr (GaussianLambda Mn (Mn * (Mw - Mn)))"
    using assms(1) by (simp add: recover_gaussian_two [OF assms(3)])
  have three: "recover_mass_dist g gamma opt_root (Some Mn) (Some Mw) (Some (Mw / Mn)) d =
      Inr (GaussianLambda Mn (Mn * (Mw - Mn)))"
    using assms(1) by (simp add: recover_gaussian_three [OF assms(3)])
  have nz: "Mn * (Mw - Mn) \<noteq> 0"
    using pos by linarith
  have call: "call_density (GaussianLambda Mn (Mn * (Mw - Mn))) x =
      Inr (Some (exp (- ((x - Mn) ^ 2) / (2 * (Mn * (Mw - Mn))))))" for x
    by (rule call_gaussian [OF nz])
  show ?thesis
    unfolding sig using pos two three call by blast
qed

theorem gaussian_recovery_closed_form_witness:
  "\<forall>g gamma opt_root.
     recovered_gauss_sigma 50 60 = 500 \<and>
     recover_mass_dist g gamma opt_root (Some 50) (Some 60) None ''Gaussian'' =
       Inr (GaussianLambda 50 500) \<and>
     recover_mass_dist g gamma opt_root (Some 50) (Some 60) (Some (6 / 5)) ''Gaussian'' =
       Inr (GaussianLambda 50 500) \<and>
     call_density (GaussianLambda 50 500) 40 = Inr (Some (exp (- (1 / 10))))"
proof (intro allI)
  fix g :: globals and gamma :: "real \<Rightarrow> npfloat"
    and opt_root :: "(real \<Rightarrow> npfloat) \<Rightarrow> real \<Rightarrow> npfloat"
  have h1: "(0::real) < 50" and h2: "(50::real) < 60"
    by simp_all
  have sig: "recovered_gauss_sigma 50 60 = 500"
    by (simp add: recovered_gauss_sigma_def)
  have q: "(60::real) / 50 = 6 / 5"
    by simp
  note t = gaussian_recovery_closed_form [OF h1 h2 str_lower_Gaussian,
      of g gamma opt_root, unfolded sig q]
  from t have c: "call_density (GaussianLambda 50 500) 40 =
      Inr (Some (exp (- ((40 - 50) ^ 2) / (2 * (50 * (60 - 50))))))"
    by blast
  have e: "- ((40 - 50) ^ 2) / (2 * (50 * (60 - 50))) = (- (1 / 10) :: real)"
    by simp
  show "recovered_gauss_sigma 50 60 = 500 \<and>
     recover_mass_dist g gamma opt_root (Some 50) (Some 60) None ''Gaussian'' =
       Inr (GaussianLambda 50 500) \<and>
     recover_mass_dist g gamma opt_root (Some 50) (Some 60) (Some (6 / 5)) ''Gaussian'' =
       Inr (GaussianLambda 50 500) \<and>
     call_density (GaussianLambda 50 500) 40 = Inr (Some (exp (- (1 / 10))))"
    using t c [unfolded e] sig by blast
qed

subsection \<open>The family selector\<close>

text \<open>
  C9. \<^verbatim>\<open>distribution\<close> is matched without regard to case: a call gives the result of the
  same call with the selector in lower case, whatever the other arguments, so
  \<^verbatim>\<open>'Gaussian'\<close>, \<^verbatim>\<open>'gaussian'\<close> and \<^verbatim>\<open>'WEIBULL'\<close> take the path of their lower-case
  spelling; and the call is refused with \<^verbatim>\<open>ValueError\<close> exactly when the lower-cased
  selector is neither \<^verbatim>\<open>'gaussian'\<close> nor \<^verbatim>\<open>'weibull'\<close>. (Selectors are ASCII strings.)
\<close>

theorem family_selector_case_insensitive:
  "recover_mass_dist g gamma opt_root Mn Mw pdi d =
     recover_mass_dist g gamma opt_root Mn Mw pdi (str_lower d) \<and>
   ((recover_mass_dist g gamma opt_root Mn Mw pdi d = Inl ValueError) =
      (str_lower d \<noteq> ''gaussian'' \<and> str_lower d \<noteq> ''weibull'')) \<and>
   str_lower ''Gaussian'' = ''gaussian'' \<and>
   str_lower ''gaussian'' = ''gaussian'' \<and>
   str_lower ''WEIBULL'' = ''weibull''"
  using recover_lower [of g gamma opt_root Mn Mw pdi d]
    recover_value_error [of g gamma opt_root Mn Mw pdi d]
    str_lower_Gaussian str_lower_gaussian str_lower_WEIBULL
  by presburger

text \<open>
  C10. A call that gives no \<^verbatim>\<open>distribution\<close> takes the Gaussian family: for all \<open>Mn\<close>,
  \<open>Mw\<close>, \<open>pdi\<close> it returns what the call with \<^verbatim>\<open>distribution='gaussian'\<close> (or
  \<^verbatim>\<open>'Gaussian'\<close>) returns; on \<open>Mn = 50\<close>, \<open>Mw = 60\<close> that is the Gaussian lambda.
\<close>

theorem default_family_is_gaussian:
  "recover_mass_dist_call g gamma opt_root Mn Mw pdi None =
     recover_mass_dist_call g gamma opt_root Mn Mw pdi (Some ''gaussian'') \<and>
   recover_mass_dist_call g gamma opt_root Mn Mw pdi None =
     recover_mass_dist_call g gamma opt_root Mn Mw pdi (Some ''Gaussian'') \<and>
   recover_mass_dist_call g gamma opt_root (Some 50) (Some 60) None None =
     Inr (GaussianLambda 50 500)"
proof -
  have "recover_mass_dist g gamma opt_root Mn Mw pdi ''Gaussian'' =
      recover_mass_dist g gamma opt_root Mn Mw pdi ''gaussian''"
    using recover_lower [of g gamma opt_root Mn Mw pdi "''Gaussian''"]
    by (simp only: str_lower_Gaussian)
  moreover have "recover_mass_dist g gamma opt_root (Some 50) (Some 60) None ''Gaussian'' =
      Inr (GaussianLambda 50 500)"
    by (simp add: recover_gaussian_two [OF str_lower_Gaussian])
  ultimately show ?thesis
    by (simp add: recover_mass_dist_call_def)
qed

subsection \<open>Completing the moments\<close>

text \<open>
  C7. When exactly two of \<open>Mn\<close>, \<open>Mw\<close>, \<open>pdi\<close> are given, the third is computed:
  \<open>Mn = Mw / pdi\<close> when \<open>Mn\<close> is missing, \<open>Mw = pdi * Mn\<close> when \<open>Mw\<close> is missing,
  \<open>pdi = Mw / Mn\<close> when \<open>pdi\<close> is missing, and the two given values stay as they are.
  Each of the three assignments is guarded by its own variable being \<^verbatim>\<open>None\<close> and
  assigns to that variable only, so the one that fires is the one of the missing value.
  The quotients are Python's: they exist for a divisor other than zero. The Gaussian
  lambda that \<^verbatim>\<open>recover_mass_dist\<close> then returns is built from the completed \<open>Mn\<close> and
  \<open>Mw\<close>.
\<close>

theorem missing_moment_completion:
  "(p \<noteq> 0 \<longrightarrow>
      complete_moments None (Some w) (Some p) = Inr (Some (w / p), Some w, Some p) \<and>
      recover_mass_dist g gamma opt_root None (Some w) (Some p) ''gaussian'' =
        Inr (GaussianLambda (w / p) (w / p * (w - w / p)))) \<and>
   complete_moments (Some n) None (Some p) = Inr (Some n, Some (p * n), Some p) \<and>
   recover_mass_dist g gamma opt_root (Some n) None (Some p) ''gaussian'' =
     Inr (GaussianLambda n (n * (p * n - n))) \<and>
   (n \<noteq> 0 \<longrightarrow>
      complete_moments (Some n) (Some w) None = Inr (Some n, Some w, Some (w / n)) \<and>
      recover_mass_dist g gamma opt_root (Some n) (Some w) None ''gaussian'' =
        Inr (GaussianLambda n (n * (w - n))))"
proof -
  have a: "complete_moments None (Some w) (Some p) = Inr (Some (w / p), Some w, Some p)"
    if "p \<noteq> 0"
    using that by (simp add: complete_moments_def bind_err_def)
  have a': "recover_mass_dist g gamma opt_root None (Some w) (Some p) ''gaussian'' =
        Inr (GaussianLambda (w / p) (w / p * (w - w / p)))" if "p \<noteq> 0"
    using that by (simp add: recover_defs str_lower_gaussian)
  have b: "complete_moments (Some n) None (Some p) = Inr (Some n, Some (p * n), Some p)"
    by (simp add: complete_moments_def bind_err_def)
  have b': "recover_mass_dist g gamma opt_root (Some n) None (Some p) ''gaussian'' =
     Inr (GaussianLambda n (n * (p * n - n)))"
    by (simp add: recover_defs str_lower_gaussian)
  have c: "complete_moments (Some n) (Some w) None = Inr (Some n, Some w, Some (w / n))"
    if "n \<noteq> 0"
    using that by (simp add: complete_moments_def bind_err_def)
  have c': "recover_mass_dist g gamma opt_root (Some n) (Some w) None ''gaussian'' =
        Inr (GaussianLambda n (n * (w - n)))" if "n \<noteq> 0"
    using that by (simp add: recover_gaussian_two [OF str_lower_gaussian])
  show ?thesis
    using a a' b b' c c' by blast
qed

theorem missing_moment_completion_witness:
  "\<forall>g gamma opt_root.
   complete_moments None (Some 60) (Some (6 / 5)) = Inr (Some 50, Some 60, Some (6 / 5)) \<and>
   recover_mass_dist g gamma opt_root None (Some 60) (Some (6 / 5)) ''gaussian'' =
     Inr (GaussianLambda 50 500) \<and>
   complete_moments (Some 50) None (Some (6 / 5)) = Inr (Some 50, Some 60, Some (6 / 5)) \<and>
   recover_mass_dist g gamma opt_root (Some 50) None (Some (6 / 5)) ''gaussian'' =
     Inr (GaussianLambda 50 500) \<and>
   complete_moments (Some 50) (Some 60) None = Inr (Some 50, Some 60, Some (6 / 5)) \<and>
   recover_mass_dist g gamma opt_root (Some 50) (Some 60) None ''gaussian'' =
     Inr (GaussianLambda 50 500)"
proof (intro allI)
  fix g :: globals and gamma :: "real \<Rightarrow> npfloat"
    and opt_root :: "(real \<Rightarrow> npfloat) \<Rightarrow> real \<Rightarrow> npfloat"
  have p: "(6 / 5 :: real) \<noteq> 0" and n: "(50::real) \<noteq> 0"
    by simp_all
  have e: "(60::real) / (6 / 5) = 50" "(6 / 5 :: real) * 50 = 60" "(60::real) / 50 = 6 / 5"
    "(50::real) * (60 - 50) = 500"
    by simp_all
  note t = missing_moment_completion [of "6 / 5" 60 g gamma opt_root 50, unfolded e]
  show "complete_moments None (Some 60) (Some (6 / 5)) = Inr (Some 50, Some 60, Some (6 / 5)) \<and>
   recover_mass_dist g gamma opt_root None (Some 60) (Some (6 / 5)) ''gaussian'' =
     Inr (GaussianLambda 50 500) \<and>
   complete_moments (Some 50) None (Some (6 / 5)) = Inr (Some 50, Some 60, Some (6 / 5)) \<and>
   recover_mass_dist g gamma opt_root (Some 50) None (Some (6 / 5)) ''gaussian'' =
     Inr (GaussianLambda 50 500) \<and>
   complete_moments (Some 50) (Some 60) None = Inr (Some 50, Some 60, Some (6 / 5)) \<and>
   recover_mass_dist g gamma opt_root (Some 50) (Some 60) None ''gaussian'' =
     Inr (GaussianLambda 50 500)"
    using t p n by blast
qed

subsection \<open>The checks on the moments\<close>

text \<open>
  C6. A call that gives fewer than two of \<open>Mn\<close>, \<open>Mw\<close>, \<open>pdi\<close> under a selector the
  function knows (one whose lower-case spelling is \<^verbatim>\<open>'gaussian'\<close> or \<^verbatim>\<open>'weibull'\<close>) fails
  at \<^verbatim>\<open>assert pdi_arg_sum >= 2\<close>, with the \<^verbatim>\<open>AssertionError\<close> that says at least two
  must be given; no lambda is returned. A call that gives \<open>pdi\<close> only is one of them.
\<close>

theorem too_few_moments_rejected:
  assumes "str_lower d = ''gaussian'' \<or> str_lower d = ''weibull''"
    and "pdi_arg_sum pdi Mn Mw < 2"
  shows "recover_mass_dist g gamma opt_root Mn Mw pdi d =
     Inl (AssertionError ''At least two of [pdi, M_n, M_w] must be given.'')"
  using assms by (auto simp: recover_mass_dist_def)

theorem too_few_moments_rejected_witness:
  "\<forall>g gamma opt_root.
     pdi_arg_sum (Some (6 / 5)) None None < 2 \<and>
     recover_mass_dist g gamma opt_root None None (Some (6 / 5)) ''gaussian'' =
       Inl (AssertionError ''At least two of [pdi, M_n, M_w] must be given.'')"
proof (intro allI)
  fix g :: globals and gamma :: "real \<Rightarrow> npfloat"
    and opt_root :: "(real \<Rightarrow> npfloat) \<Rightarrow> real \<Rightarrow> npfloat"
  have fam: "str_lower ''gaussian'' = ''gaussian'' \<or> str_lower ''gaussian'' = ''weibull''"
    by (simp add: str_lower_gaussian)
  have few: "pdi_arg_sum (Some (6 / 5)) None None < 2"
    by (simp add: pdi_arg_sum_def)
  show "pdi_arg_sum (Some (6 / 5)) None None < 2 \<and>
     recover_mass_dist g gamma opt_root None None (Some (6 / 5)) ''gaussian'' =
       Inl (AssertionError ''At least two of [pdi, M_n, M_w] must be given.'')"
    using few too_few_moments_rejected [OF fam few, of g gamma opt_root] by blast
qed

text \<open>
  The selector is tested first: under a selector the function does not know, a call that
  gives \<open>pdi\<close> only fails with \<^verbatim>\<open>ValueError\<close>, not with the assertion.
\<close>

theorem too_few_moments_unknown_family:
  "\<forall>g gamma opt_root.
     recover_mass_dist g gamma opt_root None None (Some (6 / 5)) ''lognormal'' = Inl ValueError"
  by (simp add: recover_mass_dist_def str_lower_lognormal)

text \<open>
  C4. The function tests neither the order nor the sign of \<open>Mn\<close> and \<open>Mw\<close>. A call that
  gives \<open>Mn\<close> and \<open>Mw\<close> with \<open>Mw \<le> Mn\<close>, and no \<open>pdi\<close>, returns a lambda for either
  family when \<open>Mn\<close> is not 0: the Gaussian one with \<open>Mn\<close> and \<open>sigma = Mn * (Mw - Mn)\<close>,
  the Weibull one with the root-finder's shape \<open>k\<close> and the scale \<^verbatim>\<open>f2(Mn, k)\<close>. When
  \<open>Mn\<close> is 0 the call fails with \<^verbatim>\<open>ZeroDivisionError\<close>, raised by \<^verbatim>\<open>pdi = Mw / Mn\<close>.
\<close>

theorem no_ordering_check:
  assumes "Mw \<le> Mn"
  shows "recover_mass_dist g gamma opt_root (Some Mn) (Some Mw) None ''gaussian'' =
      (if Mn = 0 then Inl ZeroDivisionError
       else Inr (GaussianLambda Mn (Mn * (Mw - Mn)))) \<and>
    recover_mass_dist g gamma opt_root (Some Mn) (Some Mw) None ''weibull'' =
      (if Mn = 0 then Inl ZeroDivisionError
       else Inr (WeibullLambda (opt_root (\<lambda>x. f1 gamma x (weib_M_n g) (weib_M_w g)) 1)
              (Option.bind (opt_root (\<lambda>x. f1 gamma x (weib_M_n g) (weib_M_w g)) 1)
                 (f2 gamma Mn))))"
  using recover_gaussian_two [OF str_lower_gaussian, of g gamma opt_root Mn Mw]
    recover_weibull_two [OF str_lower_weibull, of g gamma opt_root Mn Mw]
  by blast

theorem no_ordering_check_witness:
  "\<forall>g gamma opt_root.
    (50::real) \<le> 60 \<and>
    recover_mass_dist g gamma opt_root (Some 60) (Some 50) None ''gaussian'' =
      Inr (GaussianLambda 60 (- 600)) \<and>
    recover_mass_dist g gamma opt_root (Some 60) (Some 50) None ''weibull'' =
      Inr (WeibullLambda (opt_root (\<lambda>x. f1 gamma x (weib_M_n g) (weib_M_w g)) 1)
             (Option.bind (opt_root (\<lambda>x. f1 gamma x (weib_M_n g) (weib_M_w g)) 1)
                (f2 gamma 60)))"
proof (intro allI)
  fix g :: globals and gamma :: "real \<Rightarrow> npfloat"
    and opt_root :: "(real \<Rightarrow> npfloat) \<Rightarrow> real \<Rightarrow> npfloat"
  have h: "(50::real) \<le> 60"
    by simp
  have e: "((60::real) = 0) = False" "(60::real) * (50 - 60) = - 600"
    by simp_all
  note t = no_ordering_check [OF h, of g gamma opt_root, unfolded e if_False]
  show "(50::real) \<le> 60 \<and>
    recover_mass_dist g gamma opt_root (Some 60) (Some 50) None ''gaussian'' =
      Inr (GaussianLambda 60 (- 600)) \<and>
    recover_mass_dist g gamma opt_root (Some 60) (Some 50) None ''weibull'' =
      Inr (WeibullLambda (opt_root (\<lambda>x. f1 gamma x (weib_M_n g) (weib_M_w g)) 1)
             (Option.bind (opt_root (\<lambda>x. f1 gamma x (weib_M_n g) (weib_M_w g)) 1)
                (f2 gamma 60)))"
    using h t by blast
qed

text \<open>
  With \<open>Mn = 60\<close> and \<open>Mw = 50\<close> the Gaussian call does not fail: it returns the lambda of
  the negative \<open>sigma = -600\<close>.
\<close>

theorem mw_below_mn_returns_density:
  "\<forall>g gamma opt_root.
     recover_mass_dist g gamma opt_root (Some 60) (Some 50) None ''gaussian'' =
       Inr (GaussianLambda 60 (- 600))"
  by (simp add: recover_gaussian_two [OF str_lower_gaussian])

text \<open>
  C3. With all three values given, the function asserts \<^verbatim>\<open>pdi - (Mw/Mn) < 1e-5\<close>, a test
  of one side only, under the comment \<^verbatim>\<open>make sure that pdi = M_w / M_n\<close>. So a \<open>pdi\<close> below
  \<open>Mw / Mn\<close> passes, however far below: \<open>Mn = 50\<close>, \<open>Mw = 60\<close>, \<open>pdi = 1\<close> are
  \<open>0.2\<close> apart from consistent, and the call returns the Gaussian lambda.
\<close>

theorem pdi_check_is_one_sided:
  "\<bar>1 - 60 / 50\<bar> \<ge> (1 / 100000 :: real) \<and>
   recover_mass_dist g gamma opt_root (Some 50) (Some 60) (Some 1) ''gaussian'' =
     Inr (GaussianLambda 50 500)"
  by (simp add: recover_gaussian_three [OF str_lower_gaussian])

subsection \<open>The Weibull family\<close>

text \<open>
  C1. The Weibull branch hands the root-finder the residual \<^verbatim>\<open>f1\<close> of the module's
  variables \<^verbatim>\<open>weib_M_n\<close> and \<^verbatim>\<open>weib_M_w\<close>, from the initial guess 1, and not the residual
  of the call's own \<open>Mn\<close> and \<open>Mw\<close>; only the scale is computed from the call's \<open>Mn\<close>, as
  \<^verbatim>\<open>f2(Mn, k)\<close>. For \<open>Mn = 50\<close>, \<open>Mw = 60\<close> the returned lambda holds the shape solved for
  the module's variables, and the call with \<open>Mw = 70\<close> returns the same lambda: the result
  does not depend on \<open>Mw\<close>, and it depends on the state of the module.
\<close>

theorem weibull_shape_solved_on_module_globals:
  "recover_mass_dist g gamma opt_root (Some 50) (Some 60) None ''weibull'' =
     Inr (WeibullLambda (opt_root (\<lambda>x. f1 gamma x (weib_M_n g) (weib_M_w g)) 1)
            (Option.bind (opt_root (\<lambda>x. f1 gamma x (weib_M_n g) (weib_M_w g)) 1)
               (f2 gamma 50))) \<and>
   recover_mass_dist g gamma opt_root (Some 50) (Some 70) None ''weibull'' =
     recover_mass_dist g gamma opt_root (Some 50) (Some 60) None ''weibull''"
  by (simp add: recover_weibull_two [OF str_lower_weibull])

text \<open>
  C5. The Weibull lambda has no branch for a negative argument: it computes the one
  expression everywhere. With the shape 2 and the scale 40 of the notebook's example curve,
  its value at \<open>-40\<close> is \<open>- exp (-1) / 20\<close>, a negative number, where the Weibull density
  is 0.
\<close>

theorem weibull_lambda_negative_input:
  "call_density (WeibullLambda (Some 2) (Some 40)) (- 40) = Inr (Some (- exp (- 1) / 20)) \<and>
   - exp (- 1) / 20 < (0::real)"
  by (simp add: np_truediv_def np_power_def)

end
